theory Spec2Isabelle
  imports Complex_Main
begin

section \<open>The Fisher GAN trainer of pydlt (dlt/train/fishergan.py)\<close>

text \<open>
  The development embeds \<^verbatim>\<open>FisherGANTrainer\<close>: its constructor, \<^verbatim>\<open>d_step\<close> and
  \<^verbatim>\<open>g_step\<close>. Conventions of the embedding:

  \<^item> Scalars (0-dimensional tensors and Python floats) are real numbers, so every
    formula is read in exact arithmetic; rounding, overflow and NaN are outside the model.
  \<^item> The output of the critic on a batch is the list of its scores; a batch is not empty.
  \<^item> The networks, the optimizers and automatic differentiation are opaque collaborators,
    collected in a record of functions. A module's parameters are split into an opaque
    part (values and accumulated gradients) and the list of their
    \<^verbatim>\<open>requires_grad\<close> flags, which is the only part the trainer writes directly.
    A call of a collaborator is taken to return; failures raised inside it are not modelled.
  \<^item> Mutation is explicit state passing: a step takes the trainer and returns the trainer
    it leaves behind, also when it raises.
\<close>

subsection \<open>Data\<close>

type_synonym tensor = "real list"

text \<open>An autograd variable holding one scalar: \<^verbatim>\<open>.data\<close>, \<^verbatim>\<open>.grad\<close> (absent until the
  first backward pass reaches it) and \<^verbatim>\<open>.requires_grad\<close>.\<close>

record variable =
  data :: real
  grad :: "real option"
  var_requires_grad :: bool

text \<open>A module: the opaque state of its parameters and one \<^verbatim>\<open>requires_grad\<close> flag per
  parameter.\<close>

record 'p module =
  pstate :: 'p
  requires_grad :: "bool list"

record ('p, 'o, 'x) trainer =
  generator :: "'p module"
  discriminator :: "'p module"
  g_optimizer :: 'o
  d_optimizer :: 'o
  d_iter :: int
  d_iter_counter :: int
  add_loss :: "('x \<Rightarrow> 'x \<Rightarrow> real) option"
  training :: bool
  use_no_grad :: bool
  losses :: "string \<rightharpoonup> string list"
  rho :: real
  alpha :: "variable option"

text \<open>The collaborators: calling the generator and the discriminator with given parameters,
  \<^verbatim>\<open>zero_grad()\<close>, the backward pass into the parameters of one module (it adds the
  gradient of a scalar function of the parameters to the \<^verbatim>\<open>.grad\<close> of the parameters
  whose flag is set) and \<^verbatim>\<open>Optimizer.step()\<close>.\<close>

record ('p, 'o, 'x) collaborators =
  generator_call :: "'p \<Rightarrow> 'x \<Rightarrow> 'x"
  discriminator_call :: "'p \<Rightarrow> 'x \<Rightarrow> tensor"
  zero_grad :: "'p \<Rightarrow> 'p"
  backward :: "bool list \<Rightarrow> ('p \<Rightarrow> real) \<Rightarrow> 'p \<Rightarrow> 'p"
  optimizer_step :: "'o \<Rightarrow> 'p \<Rightarrow> 'o \<times> 'p"

datatype py_error = ZeroDivisionError | AttributeError

type_synonym metrics = "string \<rightharpoonup> real"

text \<open>The locals of the forward part of \<^verbatim>\<open>d_step\<close> (lines 53 to 68).\<close>

record 'x d_locals =
  prediction :: 'x
  epf :: real
  eqf :: real
  epf2 :: real
  eqf2 :: real
  constraint :: real
  d_loss :: real

subsection \<open>Reduction primitives\<close>

definition mean :: "tensor \<Rightarrow> real" where
  "mean xs = sum_list xs / real (length xs)"

definition square :: "tensor \<Rightarrow> tensor" where
  "square xs = map (\<lambda>v. v ^ 2) xs"

text \<open>Modelled from the spec: \<^verbatim>\<open>_get_scalar_value\<close> of dlt/util/misc.py, which is not among
  the sources. The spec calls it the scalar extraction from a 0-dimensional tensor and
  makes the metrics a map from names to floats: it returns the Python float holding the
  tensor's only element. Arithmetic on its results is therefore Python's float arithmetic,
  whose division raises \<^verbatim>\<open>ZeroDivisionError\<close> on a zero divisor.\<close>

definition get_scalar_value :: "real \<Rightarrow> real" where
  "get_scalar_value x = x"

subsection \<open>The constructor\<close>

text \<open>\<^verbatim>\<open>__init__\<close>, lines 36 to 44. The argument \<open>base\<close> is the trainer as
  \<^verbatim>\<open>GANBaseTrainer.__init__\<close> (not among the sources) leaves it.\<close>

definition FisherGANTrainer_init ::
    "('p, 'o, 'x) trainer \<Rightarrow> real \<Rightarrow> ('p, 'o, 'x) trainer" where
  "FisherGANTrainer_init base rho' =
     base\<lparr>losses := (losses base)
              (''training'' \<mapsto> [''ipm_enum'', ''ipm_denom'', ''ipm_ratio'', ''d_loss'',
                                 ''constraint'', ''epf'', ''eqf'', ''epf2'', ''eqf2'',
                                 ''lagrange''],
               ''validation'' \<mapsto> [''g_loss'']),
          rho := rho',
          alpha := None\<rparr>"

subsection \<open>The discriminator step\<close>

text \<open>Lines 50 and 51: \<^verbatim>\<open>if self.alpha is None: self.alpha = Variable(g_input.new([0]),
  requires_grad=True)\<close>.\<close>

definition lazy_alpha :: "variable option \<Rightarrow> variable" where
  "lazy_alpha a =
     (case a of
        None \<Rightarrow> \<lparr>data = 0, grad = None, var_requires_grad = True\<rparr>
      | Some v \<Rightarrow> v)"

text \<open>Lines 53 to 68, as a function of the discriminator's parameters \<open>p\<close> and of the
  multiplier's value \<open>a\<close>. Both branches on \<^verbatim>\<open>_use_no_grad\<close> compute the generator's output
  and detach it.\<close>

definition d_forward ::
    "('p, 'o, 'x) collaborators \<Rightarrow> ('p, 'o, 'x) trainer \<Rightarrow> 'p \<Rightarrow> real \<Rightarrow> 'x \<Rightarrow> 'x
      \<Rightarrow> 'x d_locals" where
  "d_forward E s p a g_input real_input =
     (let t_pred = (if use_no_grad s
                    then generator_call E (pstate (generator s)) g_input
                    else generator_call E (pstate (generator s)) g_input);
          vphi_fake = discriminator_call E p t_pred;
          vphi_real = discriminator_call E p real_input;
          epf' = mean vphi_real;
          eqf' = mean vphi_fake;
          epf2' = mean (square vphi_real);
          eqf2' = mean (square vphi_fake);
          constraint' = 1 - (0.5 * epf2' + 0.5 * eqf2');
          d_loss' = - (epf' - eqf' + a * constraint' - rho s / 2 * constraint' ^ 2);
          d_loss'' = (case add_loss s of
                        None \<Rightarrow> d_loss'
                      | Some f \<Rightarrow> d_loss' + f t_pred real_input)
      in \<lparr>prediction = t_pred, epf = epf', eqf = eqf', epf2 = epf2', eqf2 = eqf2',
          constraint = constraint', d_loss = d_loss''\<rparr>)"

text \<open>What \<^verbatim>\<open>d_loss.backward()\<close> adds to \<^verbatim>\<open>alpha.grad\<close>: the loss is
  \<open>- (\<dots> + alpha * constraint - \<dots>)\<close> and nothing else depends on \<open>alpha\<close>, so the
  derivative is the negated constraint (see \<open>d_loss_alpha_derivative\<close> below).\<close>

definition alpha_backward :: "'x d_locals \<Rightarrow> variable \<Rightarrow> variable" where
  "alpha_backward L v =
     (if var_requires_grad v
      then v\<lparr>grad := Some ((case grad v of None \<Rightarrow> 0 | Some g \<Rightarrow> g) + (- constraint L))\<rparr>
      else v)"

text \<open>The dictionary of lines 79 to 87.\<close>

definition ret_losses :: "real \<Rightarrow> real \<Rightarrow> real \<Rightarrow> 'x d_locals \<Rightarrow> variable \<Rightarrow> metrics" where
  "ret_losses ipm_enum ipm_denom ipm_ratio L v =
     [''ipm_enum'' \<mapsto> ipm_enum,
      ''ipm_denom'' \<mapsto> ipm_denom,
      ''ipm_ratio'' \<mapsto> ipm_ratio,
      ''d_loss'' \<mapsto> - get_scalar_value (d_loss L),
      ''constraint'' \<mapsto> 1 - get_scalar_value (constraint L),
      ''epf'' \<mapsto> get_scalar_value (epf L),
      ''eqf'' \<mapsto> get_scalar_value (eqf L),
      ''epf2'' \<mapsto> get_scalar_value (epf2 L),
      ''eqf2'' \<mapsto> get_scalar_value (eqf2 L),
      ''lagrange'' \<mapsto> get_scalar_value (data v)]"

text \<open>\<^verbatim>\<open>d_step\<close>, lines 46 to 89. The step raises where Python does: \<^verbatim>\<open>alpha.grad.data\<close>
  on an absent gradient, and the float division by a zero \<^verbatim>\<open>ipm_denom\<close>. The trainer
  returned with an error is the one the exception leaves behind. The power \<^verbatim>\<open>** 0.5\<close> of
  line 77 is the square root: its argument, a mean of squares, is never negative
  (lemma \<open>second_moment_nonneg\<close>).\<close>

definition d_step ::
    "('p, 'o, 'x) collaborators \<Rightarrow> ('p, 'o, 'x) trainer \<Rightarrow> 'x \<Rightarrow> 'x
      \<Rightarrow> ('p, 'o, 'x) trainer \<times> (py_error + 'x \<times> metrics)" where
  "d_step E s g_input real_input =
     (let disc1 = (discriminator s)
                    \<lparr>requires_grad := map (\<lambda>p. True) (requires_grad (discriminator s))\<rparr>;
          disc2 = disc1\<lparr>pstate := zero_grad E (pstate disc1)\<rparr>;
          a0 = lazy_alpha (alpha s);
          L = d_forward E s (pstate disc2) (data a0) g_input real_input;
          disc3 = disc2\<lparr>pstate := backward E (requires_grad disc2)
                     (\<lambda>p. d_loss (d_forward E s p (data a0) g_input real_input))
                     (pstate disc2)\<rparr>;
          a1 = alpha_backward L a0;
          (opt, p') = optimizer_step E (d_optimizer s) (pstate disc3);
          s1 = s\<lparr>discriminator := disc3\<lparr>pstate := p'\<rparr>, d_optimizer := opt,
                 alpha := Some a1\<rparr>
      in case grad a1 of
           None \<Rightarrow> (s1, Inl AttributeError)
         | Some g \<Rightarrow>
             (let a2 = a1\<lparr>data := data a1 + rho s * g\<rparr>;
                  a3 = a2\<lparr>grad := Some 0\<rparr>;
                  s2 = s1\<lparr>alpha := Some a3\<rparr>;
                  ipm_enum = get_scalar_value (epf L) - get_scalar_value (eqf L);
                  ipm_denom = sqrt (0.5 * get_scalar_value (epf2 L)
                                    + 0.5 * get_scalar_value (eqf2 L))
              in if ipm_denom = 0 then (s2, Inl ZeroDivisionError)
                 else (let ipm_ratio = ipm_enum / ipm_denom
                       in (s2\<lparr>d_iter_counter := d_iter_counter s2 + 1\<rparr>,
                           Inr (prediction L,
                                ret_losses ipm_enum ipm_denom ipm_ratio L a3)))))"

subsection \<open>The generator step\<close>

text \<open>\<^verbatim>\<open>g_step\<close>, lines 91 to 108. In training mode the backward pass reaches the
  generator's parameters only: every flag of the discriminator has just been cleared.\<close>

definition g_step ::
    "('p, 'o, 'x) collaborators \<Rightarrow> ('p, 'o, 'x) trainer \<Rightarrow> 'x
      \<Rightarrow> ('p, 'o, 'x) trainer \<times> 'x \<times> metrics" where
  "g_step E s g_input =
     (let disc1 = (discriminator s)
                    \<lparr>requires_grad := map (\<lambda>p. False) (requires_grad (discriminator s))\<rparr>;
          s1 = s\<lparr>discriminator := disc1\<rparr>
      in if training s then
           (let gen1 = (generator s1)\<lparr>pstate := zero_grad E (pstate (generator s1))\<rparr>;
                pred = generator_call E (pstate gen1) g_input;
                error = - mean (discriminator_call E (pstate disc1) pred);
                gen2 = gen1\<lparr>pstate := backward E (requires_grad gen1)
                          (\<lambda>p. - mean (discriminator_call E (pstate disc1)
                                          (generator_call E p g_input)))
                          (pstate gen1)\<rparr>;
                (opt, p') = optimizer_step E (g_optimizer s1) (pstate gen2)
            in (s1\<lparr>generator := gen2\<lparr>pstate := p'\<rparr>, g_optimizer := opt\<rparr>,
                pred, [''g_loss'' \<mapsto> get_scalar_value error]))
         else
           (let pred = (if use_no_grad s
                        then generator_call E (pstate (generator s1)) g_input
                        else generator_call E (pstate (generator s1)) g_input);
                error = - mean (discriminator_call E (pstate disc1) pred)
            in (s1, pred, [''g_loss'' \<mapsto> get_scalar_value error])))"

subsection \<open>Derived notions used by the theorems\<close>

text \<open>The locals of a discriminator step on trainer \<open>s\<close>: the forward part at the
  discriminator's parameters after \<^verbatim>\<open>zero_grad()\<close> and at the multiplier after its lazy
  initialization (lemmas \<open>d_step_snd\<close> and \<open>d_step_returns_metrics\<close> tie them to
  \<open>d_step\<close>).\<close>

definition d_step_locals ::
    "('p, 'o, 'x) collaborators \<Rightarrow> ('p, 'o, 'x) trainer \<Rightarrow> 'x \<Rightarrow> 'x \<Rightarrow> 'x d_locals" where
  "d_step_locals E s g_input real_input =
     d_forward E s (zero_grad E (pstate (discriminator s))) (data (lazy_alpha (alpha s)))
       g_input real_input"

text \<open>The multiplier is written by \<open>d_step\<close> only, which leaves it tracking gradients
  and with a cleared gradient: the state of \<open>alpha\<close> between two calls.\<close>

definition alpha_inv :: "('p, 'o, 'x) trainer \<Rightarrow> bool" where
  "alpha_inv s =
     (case alpha s of
        None \<Rightarrow> True
      | Some v \<Rightarrow> var_requires_grad v \<and> grad v = Some 0)"

text \<open>Lines 72 and 73 on the multiplier that entered the step, when the backward pass
  has left the negated constraint in its gradient.\<close>

definition dual_ascent ::
    "('p, 'o, 'x) collaborators \<Rightarrow> ('p, 'o, 'x) trainer \<Rightarrow> 'x \<Rightarrow> 'x \<Rightarrow> variable" where
  "dual_ascent E s g_input real_input =
     (lazy_alpha (alpha s))
       \<lparr>data := data (lazy_alpha (alpha s))
                 + rho s * (- constraint (d_step_locals E s g_input real_input)),
        grad := Some 0\<rparr>"

text \<open>The metrics a step returned; none when it raised.\<close>

definition metrics_of :: "py_error + 'x \<times> metrics \<Rightarrow> metrics" where
  "metrics_of r = (case r of Inl e \<Rightarrow> Map.empty | Inr (pred, m) \<Rightarrow> m)"


text \<open>Sequences of calls. An exception ends the sequence: it propagates to the caller,
  and the trainer keeps what the failed step had already written.\<close>

datatype 'x call = DStep 'x 'x | GStep 'x

fun is_DStep :: "'x call \<Rightarrow> bool" where
  "is_DStep (DStep g_input real_input) = True"
| "is_DStep (GStep g_input) = False"

fun run_steps ::
    "('p, 'o, 'x) collaborators \<Rightarrow> ('p, 'o, 'x) trainer \<Rightarrow> 'x call list
      \<Rightarrow> ('p, 'o, 'x) trainer \<times> py_error option" where
  "run_steps E s [] = (s, None)"
| "run_steps E s (DStep g_input real_input # cs) =
     (case d_step E s g_input real_input of
        (s', Inl e) \<Rightarrow> (s', Some e)
      | (s', Inr r) \<Rightarrow> run_steps E s' cs)"
| "run_steps E s (GStep g_input # cs) = run_steps E (fst (g_step E s g_input)) cs"

subsection \<open>A concrete trainer\<close>

text \<open>The scenario of the spec's section 8: each network has a weight 1 and a bias 0, so
  that it returns its input and the critic scores the real batch \<open>[2]\<close> with 2 and the
  generated batch \<open>[1]\<close> with 1; \<open>rho = 1\<close> and two discriminator steps per generator
  step. The parameters of a module are the list of weight and bias; the backward pass and
  \<^verbatim>\<open>zero_grad()\<close> leave them alone, the optimizer counts its steps. The generator's bias
  is frozen.\<close>

definition affine :: "real list \<Rightarrow> tensor \<Rightarrow> tensor" where
  "affine p x = map (\<lambda>v. p ! 0 * v + p ! 1) x"

definition toy :: "(real list, nat, tensor) collaborators" where
  "toy = \<lparr>generator_call = affine,
          discriminator_call = affine,
          zero_grad = (\<lambda>p. p),
          backward = (\<lambda>flags f p. p),
          optimizer_step = (\<lambda>opt p. (Suc opt, p))\<rparr>"

definition toy_base :: "(real list, nat, tensor) trainer" where
  "toy_base = \<lparr>generator = \<lparr>pstate = [1, 0], requires_grad = [True, False]\<rparr>,
               discriminator = \<lparr>pstate = [1, 0], requires_grad = [False, True]\<rparr>,
               g_optimizer = 0, d_optimizer = 0,
               d_iter = 2, d_iter_counter = 0,
               add_loss = None, training = True, use_no_grad = True,
               losses = Map.empty, rho = 0, alpha = None\<rparr>"

definition toy_trainer :: "(real list, nat, tensor) trainer" where
  "toy_trainer = FisherGANTrainer_init toy_base 1"

section \<open>Properties\<close>

subsection \<open>Unfolding a discriminator step\<close>

lemma alpha_backward_inv:
  "alpha_inv s \<Longrightarrow>
   alpha_backward L (lazy_alpha (alpha s)) =
     (lazy_alpha (alpha s))\<lparr>grad := Some (- constraint L)\<rparr>"
  by (auto simp: alpha_inv_def lazy_alpha_def alpha_backward_def split: option.splits)

lemma d_step_alpha:
  "alpha_inv s \<Longrightarrow> alpha (fst (d_step E s gi ri)) = Some (dual_ascent E s gi ri)"
  unfolding d_step_def d_step_locals_def dual_ascent_def
  by (simp add: alpha_backward_inv Let_def split: prod.splits)

lemma d_step_snd:
  "alpha_inv s \<Longrightarrow>
   snd (d_step E s gi ri) =
     (let L = d_step_locals E s gi ri;
          ipm_enum = epf L - eqf L;
          ipm_denom = sqrt (0.5 * epf2 L + 0.5 * eqf2 L)
      in if ipm_denom = 0 then Inl ZeroDivisionError
         else Inr (prediction L,
                   ret_losses ipm_enum ipm_denom (ipm_enum / ipm_denom) L
                     (dual_ascent E s gi ri)))"
  unfolding d_step_def d_step_locals_def dual_ascent_def
  by (simp add: alpha_backward_inv Let_def get_scalar_value_def split: prod.splits)

lemma d_step_returns_metrics:
  "snd (d_step E s gi ri) = Inr (pred, m) \<Longrightarrow>
   \<exists>e d r v. m = ret_losses e d r (d_step_locals E s gi ri) v \<and> d \<noteq> 0 \<and> r = e / d
     \<and> e = epf (d_step_locals E s gi ri) - eqf (d_step_locals E s gi ri)
     \<and> d = sqrt (0.5 * epf2 (d_step_locals E s gi ri) + 0.5 * eqf2 (d_step_locals E s gi ri))
     \<and> alpha (fst (d_step E s gi ri)) = Some v
     \<and> pred = prediction (d_step_locals E s gi ri)"
  unfolding d_step_def d_step_locals_def
  by (auto simp: Let_def get_scalar_value_def split: prod.splits option.splits if_splits)

lemma alpha_inv_init: "alpha_inv (FisherGANTrainer_init base r)"
  by (simp add: alpha_inv_def FisherGANTrainer_init_def)

lemma alpha_inv_d_step: "alpha_inv s \<Longrightarrow> alpha_inv (fst (d_step E s gi ri))"
  by (simp add: alpha_inv_def [of "fst (d_step E s gi ri)"] d_step_alpha dual_ascent_def
      alpha_inv_def lazy_alpha_def split: option.splits)

lemma g_step_alpha: "alpha (fst (g_step E s gi)) = alpha s"
  unfolding g_step_def by (simp add: Let_def split: prod.splits)

lemma alpha_inv_g_step: "alpha_inv s \<Longrightarrow> alpha_inv (fst (g_step E s gi))"
  by (simp add: alpha_inv_def g_step_alpha)

lemma alpha_inv_run_steps: "alpha_inv s \<Longrightarrow> alpha_inv (fst (run_steps E s cs))"
proof (induction cs arbitrary: s)
  case Nil
  then show ?case by simp
next
  case (Cons c cs)
  show ?case
  proof (cases c)
    case (DStep gi ri)
    obtain s' r where step: "d_step E s gi ri = (s', r)"
      by (cases "d_step E s gi ri")
    have inv': "alpha_inv s'"
      using alpha_inv_d_step [OF Cons.prems, of E gi ri] step by simp
    show ?thesis
    proof (cases r)
      case (Inl e)
      with DStep step inv' show ?thesis by simp
    next
      case (Inr res)
      with DStep step Cons.IH [OF inv'] show ?thesis by simp
    qed
  next
    case (GStep gi)
    with Cons.IH [OF alpha_inv_g_step [OF Cons.prems]] show ?thesis by simp
  qed
qed

lemma d_loss_alpha_derivative:
  "((\<lambda>a. d_loss (d_forward E s p a gi ri)) has_field_derivative
      (- constraint (d_forward E s p a0 gi ri))) (at a0)"
  unfolding d_forward_def Let_def
  by (cases "add_loss s") (auto intro!: derivative_eq_intros)

lemmas toy_defs = toy_def toy_trainer_def toy_base_def FisherGANTrainer_init_def affine_def

lemmas forward_defs = d_step_locals_def d_forward_def lazy_alpha_def mean_def square_def Let_def

lemma alpha_inv_toy: "alpha_inv toy_trainer"
  unfolding toy_trainer_def by (rule alpha_inv_init)

lemma toy_locals:
  "d_step_locals toy toy_trainer [1] [2] =
     \<lparr>prediction = [1], epf = 2, eqf = 1, epf2 = 4, eqf2 = 1, constraint = - (3 / 2),
      d_loss = 1 / 8\<rparr>"
  by (simp add: toy_defs forward_defs power2_eq_square)

subsection \<open>The discriminator loss\<close>

text \<open>
  Claim C1. On a discriminator step with no extra loss configured, the loss computed
  inside the step is \<open>- (epf - eqf + alpha * constraint - (rho / 2) * constraint\<^sup>2)\<close>, where
  \<open>epf\<close> and \<open>eqf\<close> are the means of the critic's scores on the real batch and on the
  generator's prediction, \<open>epf2\<close> and \<open>eqf2\<close> the means of the squared scores,
  \<open>constraint = 1 - (0.5 * epf2 + 0.5 * eqf2)\<close> and \<open>alpha\<close> the multiplier's value
  entering the step (0 when the step creates it). A step that returns reports under
  \<^verbatim>\<open>'d_loss'\<close> the negation of that loss.
\<close>

theorem d_loss_augmented_lagrangian:
  assumes "add_loss s = None"
  shows "let p = zero_grad E (pstate (discriminator s));
             vphi_real = discriminator_call E p real_input;
             vphi_fake = discriminator_call E p
                           (generator_call E (pstate (generator s)) g_input);
             epf' = mean vphi_real;
             eqf' = mean vphi_fake;
             epf2' = mean (square vphi_real);
             eqf2' = mean (square vphi_fake);
             constraint' = 1 - (0.5 * epf2' + 0.5 * eqf2');
             alpha' = (case alpha s of None \<Rightarrow> 0 | Some v \<Rightarrow> data v);
             loss = - (epf' - eqf' + alpha' * constraint' - rho s / 2 * constraint' ^ 2)
         in d_loss (d_step_locals E s g_input real_input) = loss
            \<and> (\<forall>pred m. snd (d_step E s g_input real_input) = Inr (pred, m)
                  \<longrightarrow> m ''d_loss'' = Some (- loss))"
proof -
  have alpha0: "data (lazy_alpha (alpha s)) = (case alpha s of None \<Rightarrow> 0 | Some v \<Rightarrow> data v)"
    by (simp add: lazy_alpha_def split: option.splits)
  have loss:
    "d_loss (d_step_locals E s g_input real_input) =
       (let p = zero_grad E (pstate (discriminator s));
            vphi_real = discriminator_call E p real_input;
            vphi_fake = discriminator_call E p
                          (generator_call E (pstate (generator s)) g_input);
            epf' = mean vphi_real;
            eqf' = mean vphi_fake;
            epf2' = mean (square vphi_real);
            eqf2' = mean (square vphi_fake);
            constraint' = 1 - (0.5 * epf2' + 0.5 * eqf2');
            alpha' = (case alpha s of None \<Rightarrow> 0 | Some v \<Rightarrow> data v)
        in - (epf' - eqf' + alpha' * constraint' - rho s / 2 * constraint' ^ 2))"
    using assms by (simp add: d_step_locals_def d_forward_def Let_def alpha0)
  have reported: "m ''d_loss'' = Some (- d_loss (d_step_locals E s g_input real_input))"
    if "snd (d_step E s g_input real_input) = Inr (pred, m)" for pred m
    using d_step_returns_metrics [OF that]
    by (auto simp: ret_losses_def get_scalar_value_def)
  show ?thesis
    unfolding Let_def loss [unfolded Let_def, symmetric]
    using reported by blast
qed

theorem d_loss_augmented_lagrangian_witness:
  "add_loss toy_trainer = None
   \<and> d_loss (d_step_locals toy toy_trainer [1] [2]) = 1 / 8
   \<and> metrics_of (snd (d_step toy toy_trainer [1] [2])) ''d_loss'' = Some (- (1 / 8))"
proof -
  have none: "add_loss toy_trainer = None"
    by (simp add: toy_defs)
  have ret: "snd (d_step toy toy_trainer [1] [2]) =
      Inr ([1], ret_losses 1 (sqrt (5 / 2)) (1 / sqrt (5 / 2))
                  (d_step_locals toy toy_trainer [1] [2])
                  (dual_ascent toy toy_trainer [1] [2]))"
    by (simp add: d_step_snd [OF alpha_inv_toy] toy_locals Let_def)
  have "d_loss (d_step_locals toy toy_trainer [1] [2]) = 1 / 8
        \<and> (\<forall>pred m. snd (d_step toy toy_trainer [1] [2]) = Inr (pred, m)
              \<longrightarrow> m ''d_loss'' = Some (- (1 / 8)))"
    using d_loss_augmented_lagrangian [OF none, of toy "[2]" "[1]"]
    by (simp add: Let_def toy_defs mean_def square_def power2_eq_square)
  with none ret show ?thesis
    by (simp add: metrics_of_def)
qed

subsection \<open>The multiplier\<close>

lemma d_step_locals_training [simp]:
  "d_step_locals E (s\<lparr>training := mode\<rparr>) gi ri = d_step_locals E s gi ri"
  by (simp add: d_step_locals_def d_forward_def)

lemma alpha_inv_training [simp]: "alpha_inv (s\<lparr>training := mode\<rparr>) = alpha_inv s"
  by (simp add: alpha_inv_def)

lemma dual_ascent_training [simp]:
  "dual_ascent E (s\<lparr>training := mode\<rparr>) gi ri = dual_ascent E s gi ri"
  by (simp add: dual_ascent_def)

text \<open>
  Claim C2. On every discriminator step, in training and in evaluation mode alike, the
  multiplier is updated once by \<open>alpha \<leftarrow> alpha + rho * g\<close>, where \<open>g\<close> is the derivative
  of the step's loss with respect to \<open>alpha\<close> that the backward pass has left in
  \<^verbatim>\<open>alpha.grad\<close>, and the gradient of \<open>alpha\<close> is zero when the step is over (also when
  the step then raises on the division).
\<close>

theorem dual_ascent_every_step:
  assumes "alpha_inv s"
  shows "let p = zero_grad E (pstate (discriminator s));
             a0 = lazy_alpha (alpha s);
             loss = (\<lambda>a. d_loss (d_forward E s p a g_input real_input));
             g = - constraint (d_step_locals E s g_input real_input)
         in (loss has_field_derivative g) (at (data a0))
            \<and> (\<forall>mode. alpha (fst (d_step E (s\<lparr>training := mode\<rparr>) g_input real_input)) =
                   Some (a0\<lparr>data := data a0 + rho s * g, grad := Some 0\<rparr>))"
proof -
  have deriv:
    "((\<lambda>a. d_loss (d_forward E s (zero_grad E (pstate (discriminator s))) a g_input real_input))
        has_field_derivative (- constraint (d_step_locals E s g_input real_input)))
       (at (data (lazy_alpha (alpha s))))"
    unfolding d_step_locals_def by (rule d_loss_alpha_derivative)
  have update:
    "alpha (fst (d_step E (s\<lparr>training := mode\<rparr>) g_input real_input)) =
       Some ((lazy_alpha (alpha s))
               \<lparr>data := data (lazy_alpha (alpha s))
                         + rho s * (- constraint (d_step_locals E s g_input real_input)),
                grad := Some 0\<rparr>)" for mode
    using assms d_step_alpha [of "s\<lparr>training := mode\<rparr>" E g_input real_input]
    by (simp add: dual_ascent_def)
  show ?thesis
    unfolding Let_def using deriv update by blast
qed

theorem dual_ascent_every_step_witness:
  "alpha_inv toy_trainer
   \<and> alpha (fst (d_step toy (toy_trainer\<lparr>training := True\<rparr>) [1] [2])) =
       Some \<lparr>data = 3 / 2, grad = Some 0, var_requires_grad = True\<rparr>
   \<and> alpha (fst (d_step toy (toy_trainer\<lparr>training := False\<rparr>) [1] [2])) =
       Some \<lparr>data = 3 / 2, grad = Some 0, var_requires_grad = True\<rparr>"
proof -
  have "\<forall>mode. alpha (fst (d_step toy (toy_trainer\<lparr>training := mode\<rparr>) [1] [2])) =
          Some \<lparr>data = 3 / 2, grad = Some 0, var_requires_grad = True\<rparr>"
    using dual_ascent_every_step [OF alpha_inv_toy, of toy "[1]" "[2]"]
    by (simp add: Let_def toy_locals) (simp add: toy_defs lazy_alpha_def)
  with alpha_inv_toy show ?thesis by blast
qed

lemma d_forward_alpha_update [simp]:
  "d_forward E (s\<lparr>alpha := x\<rparr>) p a gi ri = d_forward E s p a gi ri"
  by (simp add: d_forward_def)

lemma d_step_lazy_init:
  "alpha s = None \<Longrightarrow>
   d_step E s gi ri =
     d_step E (s\<lparr>alpha := Some \<lparr>data = 0, grad = None, var_requires_grad = True\<rparr>\<rparr>) gi ri"
  unfolding d_step_def
  by (simp add: lazy_alpha_def Let_def split: prod.splits option.splits)

lemma init_alpha: "alpha (FisherGANTrainer_init base r) = None"
  by (simp add: FisherGANTrainer_init_def)

lemma d_step_no_attribute_error:
  "alpha_inv s \<Longrightarrow> snd (d_step E s gi ri) \<noteq> Inl AttributeError"
  by (simp add: d_step_snd Let_def)

lemma run_steps_alpha_None:
  "alpha_inv s \<Longrightarrow>
   (alpha (fst (run_steps E s cs)) = None) = (alpha s = None \<and> filter is_DStep cs = [])"
proof (induction cs arbitrary: s)
  case Nil
  then show ?case by simp
next
  case (Cons c cs)
  show ?case
  proof (cases c)
    case (DStep gi ri)
    obtain s' r where step: "d_step E s gi ri = (s', r)"
      by (cases "d_step E s gi ri")
    have inv': "alpha_inv s'" and some: "alpha s' \<noteq> None"
      using alpha_inv_d_step [OF Cons.prems, of E gi ri]
        d_step_alpha [OF Cons.prems, of E gi ri] step by simp_all
    show ?thesis
    proof (cases r)
      case (Inl e)
      with DStep step some show ?thesis by simp
    next
      case (Inr res)
      with DStep step some Cons.IH [OF inv'] show ?thesis by simp
    qed
  next
    case (GStep gi)
    with Cons.IH [OF alpha_inv_g_step [OF Cons.prems]] show ?thesis
      by (simp add: g_step_alpha)
  qed
qed

text \<open>
  Claim C3. The constructor leaves \<open>alpha\<close> absent. A discriminator step that finds it
  absent creates it with value 0 and gradient tracking enabled and goes on as a step
  that had found this variable; it does not fail on the missing multiplier. A step that
  finds \<open>alpha\<close> present applies one dual-ascent update to the value it found. A
  generator step does not touch \<open>alpha\<close>, and over every sequence of calls on a new trainer
  \<open>alpha\<close> is absent exactly as long as no discriminator step has been called: it is never
  reset.
\<close>

theorem alpha_lifecycle:
  "alpha (FisherGANTrainer_init base r) = None
   \<and> (alpha s0 = None \<longrightarrow>
        lazy_alpha (alpha s0) = \<lparr>data = 0, grad = None, var_requires_grad = True\<rparr>
        \<and> d_step E s0 g_input real_input =
            d_step E (s0\<lparr>alpha := Some \<lparr>data = 0, grad = None, var_requires_grad = True\<rparr>\<rparr>)
              g_input real_input
        \<and> snd (d_step E s0 g_input real_input) \<noteq> Inl AttributeError
        \<and> alpha (fst (d_step E s0 g_input real_input)) =
            Some \<lparr>data = 0 + rho s0 * (- constraint (d_step_locals E s0 g_input real_input)),
                  grad = Some 0, var_requires_grad = True\<rparr>)
   \<and> (alpha_inv s1 \<and> alpha s1 = Some v \<longrightarrow>
        alpha (fst (d_step E s1 g_input real_input)) =
          Some (v\<lparr>data := data v
                     + rho s1 * (- constraint (d_step_locals E s1 g_input real_input))\<rparr>))
   \<and> alpha (fst (g_step E s1 g_input)) = alpha s1
   \<and> alpha_inv (fst (run_steps E (FisherGANTrainer_init base r) cs))
   \<and> (alpha (fst (run_steps E (FisherGANTrainer_init base r) cs)) = None)
       = (filter is_DStep cs = [])"
proof (intro conjI impI)
  show "alpha (FisherGANTrainer_init base r) = None"
    by (rule init_alpha)
next
  assume none: "alpha s0 = None"
  then have inv: "alpha_inv s0"
    by (simp add: alpha_inv_def)
  show "lazy_alpha (alpha s0) = \<lparr>data = 0, grad = None, var_requires_grad = True\<rparr>"
    using none by (simp add: lazy_alpha_def)
  show "d_step E s0 g_input real_input =
          d_step E (s0\<lparr>alpha := Some \<lparr>data = 0, grad = None, var_requires_grad = True\<rparr>\<rparr>)
            g_input real_input"
    using none by (rule d_step_lazy_init)
  show "snd (d_step E s0 g_input real_input) \<noteq> Inl AttributeError"
    using inv by (rule d_step_no_attribute_error)
  show "alpha (fst (d_step E s0 g_input real_input)) =
          Some \<lparr>data = 0 + rho s0 * (- constraint (d_step_locals E s0 g_input real_input)),
                grad = Some 0, var_requires_grad = True\<rparr>"
    using none by (simp add: d_step_alpha [OF inv] dual_ascent_def lazy_alpha_def)
next
  assume some: "alpha_inv s1 \<and> alpha s1 = Some v"
  then have "grad v = Some 0"
    by (auto simp: alpha_inv_def)
  with some show "alpha (fst (d_step E s1 g_input real_input)) =
      Some (v\<lparr>data := data v
                 + rho s1 * (- constraint (d_step_locals E s1 g_input real_input))\<rparr>)"
    by (simp add: d_step_alpha dual_ascent_def lazy_alpha_def)
next
  show "alpha (fst (g_step E s1 g_input)) = alpha s1"
    by (rule g_step_alpha)
next
  show "alpha_inv (fst (run_steps E (FisherGANTrainer_init base r) cs))"
    by (rule alpha_inv_run_steps [OF alpha_inv_init])
next
  show "(alpha (fst (run_steps E (FisherGANTrainer_init base r) cs)) = None)
          = (filter is_DStep cs = [])"
    using init_alpha [of base r] by (simp add: run_steps_alpha_None [OF alpha_inv_init])
qed

lemma toy_first_step:
  "fst (d_step toy toy_trainer [1] [2]) =
     toy_trainer\<lparr>discriminator := \<lparr>pstate = [1, 0], requires_grad = [True, True]\<rparr>,
                 d_optimizer := 1,
                 alpha := Some \<lparr>data = 3 / 2, grad = Some 0, var_requires_grad = True\<rparr>,
                 d_iter_counter := 1\<rparr>"
  by (simp add: toy_defs d_step_def d_forward_def lazy_alpha_def alpha_backward_def mean_def
      square_def get_scalar_value_def Let_def)

theorem alpha_lifecycle_witness:
  "alpha toy_trainer = None
   \<and> alpha (fst (d_step toy toy_trainer [1] [2])) =
       Some \<lparr>data = 3 / 2, grad = Some 0, var_requires_grad = True\<rparr>
   \<and> alpha_inv (fst (d_step toy toy_trainer [1] [2]))
   \<and> alpha (fst (d_step toy (fst (d_step toy toy_trainer [1] [2])) [1] [2])) =
       Some \<lparr>data = 3, grad = Some 0, var_requires_grad = True\<rparr>
   \<and> alpha (fst (run_steps toy toy_trainer [GStep [1]])) = None"
proof -
  let ?s1 = "fst (d_step toy toy_trainer [1] [2])"
  let ?v = "\<lparr>data = 3 / 2, grad = Some 0, var_requires_grad = True\<rparr>"
  have none: "alpha toy_trainer = None"
    by (simp add: toy_defs)
  have inv1: "alpha_inv ?s1"
    by (rule alpha_inv_d_step [OF alpha_inv_toy])
  have some1: "alpha ?s1 = Some ?v"
    by (simp add: toy_first_step)
  have locals1: "constraint (d_step_locals toy ?s1 [1] [2]) = - (3 / 2)"
    by (simp add: toy_first_step) (simp add: toy_defs forward_defs power2_eq_square)
  have rho1: "rho ?s1 = 1" "rho toy_trainer = 1"
    by (simp_all add: toy_first_step) (simp_all add: toy_defs)
  note life = alpha_lifecycle [of toy_base 1 toy_trainer toy "[1]" "[2]" ?s1 ?v "[GStep [1]]"]
  have step0: "alpha ?s1 =
      Some \<lparr>data = 0 + rho toy_trainer * (- constraint (d_step_locals toy toy_trainer [1] [2])),
            grad = Some 0, var_requires_grad = True\<rparr>"
    using life none by blast
  have step1: "alpha (fst (d_step toy ?s1 [1] [2])) =
      Some (?v\<lparr>data := data ?v + rho ?s1 * (- constraint (d_step_locals toy ?s1 [1] [2]))\<rparr>)"
    using life inv1 some1 by blast
  have gen: "(alpha (fst (run_steps toy (FisherGANTrainer_init toy_base 1) [GStep [1]])) = None)
      = (filter is_DStep [GStep [1 :: real]] = [])"
    using life by blast
  from step0 have "alpha ?s1 = Some ?v"
    by (simp add: rho1 toy_locals)
  moreover from step1 have "alpha (fst (d_step toy ?s1 [1] [2])) =
      Some \<lparr>data = 3, grad = Some 0, var_requires_grad = True\<rparr>"
    by (simp add: rho1 locals1)
  moreover from gen have "alpha (fst (run_steps toy toy_trainer [GStep [1]])) = None"
    by (simp add: toy_trainer_def)
  ultimately show ?thesis
    using none inv1 by blast
qed

subsection \<open>The metrics\<close>

lemma dom_ret_losses_rev:
  "dom (ret_losses e d r L v) =
     {''lagrange'', ''eqf2'', ''epf2'', ''eqf'', ''epf'', ''constraint'', ''d_loss'',
      ''ipm_ratio'', ''ipm_denom'', ''ipm_enum''}"
  unfolding ret_losses_def by simp

lemma dom_ret_losses:
  "dom (ret_losses e d r L v) =
     {''ipm_enum'', ''ipm_denom'', ''ipm_ratio'', ''d_loss'', ''constraint'', ''epf'', ''eqf'',
      ''epf2'', ''eqf2'', ''lagrange''}"
  unfolding dom_ret_losses_rev by (simp add: insert_commute)

lemma g_step_metrics:
  "snd (snd (g_step E s gi)) =
     [''g_loss'' \<mapsto> - mean (discriminator_call E (pstate (discriminator s))
                             (generator_call E
                                (if training s then zero_grad E (pstate (generator s))
                                 else pstate (generator s)) gi))]"
  unfolding g_step_def by (simp add: Let_def get_scalar_value_def split: prod.splits)

text \<open>
  Claim C4. The metrics a discriminator step returns have exactly the ten keys
  \<^verbatim>\<open>ipm_enum\<close>, \<^verbatim>\<open>ipm_denom\<close>, \<^verbatim>\<open>ipm_ratio\<close>, \<^verbatim>\<open>d_loss\<close>, \<^verbatim>\<open>constraint\<close>, \<^verbatim>\<open>epf\<close>,
  \<^verbatim>\<open>eqf\<close>, \<^verbatim>\<open>epf2\<close>, \<^verbatim>\<open>eqf2\<close> and \<^verbatim>\<open>lagrange\<close>; the metrics a generator step returns
  have exactly the key \<^verbatim>\<open>g_loss\<close>.
\<close>

theorem metric_keys:
  "(snd (d_step E s g_input real_input) = Inr (pred, m) \<longrightarrow>
      dom m = {''ipm_enum'', ''ipm_denom'', ''ipm_ratio'', ''d_loss'', ''constraint'', ''epf'',
               ''eqf'', ''epf2'', ''eqf2'', ''lagrange''}
      \<and> card (dom m) = 10)
   \<and> dom (snd (snd (g_step E s g_input))) = {''g_loss''}"
proof (intro conjI impI)
  assume "snd (d_step E s g_input real_input) = Inr (pred, m)"
  from d_step_returns_metrics [OF this]
  obtain e d r v where "m = ret_losses e d r (d_step_locals E s g_input real_input) v"
    by blast
  then show keys: "dom m = {''ipm_enum'', ''ipm_denom'', ''ipm_ratio'', ''d_loss'',
                            ''constraint'', ''epf'', ''eqf'', ''epf2'', ''eqf2'', ''lagrange''}"
    by (simp only: dom_ret_losses)
  show "card (dom m) = 10"
    unfolding keys by simp
next
  show "dom (snd (snd (g_step E s g_input))) = {''g_loss''}"
    by (simp add: g_step_metrics)
qed

lemma toy_first_metrics:
  "snd (d_step toy toy_trainer [1] [2]) =
     Inr ([1], ret_losses 1 (sqrt (5 / 2)) (1 / sqrt (5 / 2))
                 (d_step_locals toy toy_trainer [1] [2])
                 (dual_ascent toy toy_trainer [1] [2]))"
  by (simp add: d_step_snd [OF alpha_inv_toy] toy_locals Let_def)

theorem metric_keys_witness:
  "snd (d_step toy toy_trainer [1] [2]) =
     Inr ([1], ret_losses 1 (sqrt (5 / 2)) (1 / sqrt (5 / 2))
                 (d_step_locals toy toy_trainer [1] [2])
                 (dual_ascent toy toy_trainer [1] [2]))
   \<and> dom (ret_losses 1 (sqrt (5 / 2)) (1 / sqrt (5 / 2))
            (d_step_locals toy toy_trainer [1] [2])
            (dual_ascent toy toy_trainer [1] [2])) =
       {''ipm_enum'', ''ipm_denom'', ''ipm_ratio'', ''d_loss'', ''constraint'', ''epf'',
        ''eqf'', ''epf2'', ''eqf2'', ''lagrange''}
   \<and> dom (snd (snd (g_step toy toy_trainer [1]))) = {''g_loss''}"
proof -
  note keys = metric_keys [of toy toy_trainer "[1]" "[2]" "[1]"
      "ret_losses 1 (sqrt (5 / 2)) (1 / sqrt (5 / 2))
         (d_step_locals toy toy_trainer [1] [2]) (dual_ascent toy toy_trainer [1] [2])"]
  from keys [THEN conjunct1] toy_first_metrics
  have "dom (ret_losses 1 (sqrt (5 / 2)) (1 / sqrt (5 / 2))
               (d_step_locals toy toy_trainer [1] [2])
               (dual_ascent toy toy_trainer [1] [2])) =
          {''ipm_enum'', ''ipm_denom'', ''ipm_ratio'', ''d_loss'', ''constraint'', ''epf'',
           ''eqf'', ''epf2'', ''eqf2'', ''lagrange''}
        \<and> card (dom (ret_losses 1 (sqrt (5 / 2)) (1 / sqrt (5 / 2))
               (d_step_locals toy toy_trainer [1] [2])
               (dual_ascent toy toy_trainer [1] [2]))) = 10"
    by (rule mp)
  from this [THEN conjunct1] keys [THEN conjunct2] toy_first_metrics
  show ?thesis by (intro conjI)
qed

lemma mean_square_nonneg: "0 \<le> mean (square xs)"
proof -
  have "0 \<le> sum_list (square xs)"
    unfolding square_def by (rule sum_list_nonneg) auto
  then show ?thesis
    by (simp add: mean_def)
qed

lemma second_moment_nonneg:
  "0 \<le> 0.5 * epf2 (d_step_locals E s gi ri) + 0.5 * eqf2 (d_step_locals E s gi ri)"
  using mean_square_nonneg
  by (simp add: d_step_locals_def d_forward_def Let_def)

lemma constraint_locals:
  "constraint (d_step_locals E s gi ri) =
     1 - (0.5 * epf2 (d_step_locals E s gi ri) + 0.5 * eqf2 (d_step_locals E s gi ri))"
  by (simp add: d_step_locals_def d_forward_def Let_def)

lemma toy_zero_locals:
  "d_step_locals toy toy_trainer [0] [0] =
     \<lparr>prediction = [0], epf = 0, eqf = 0, epf2 = 0, eqf2 = 0, constraint = 1,
      d_loss = 1 / 2\<rparr>"
  by (simp add: toy_defs forward_defs)

text \<open>
  Claim C6, as stated, fails: when \<^verbatim>\<open>ipm_denom\<close> is zero the division of line 78 is a
  division of Python floats and raises \<^verbatim>\<open>ZeroDivisionError\<close>; the step returns no
  metric at all. With a critic that scores both batches 0:
\<close>

theorem ipm_ratio_zero_denominator_counterexample:
  "sqrt (0.5 * epf2 (d_step_locals toy toy_trainer [0] [0])
         + 0.5 * eqf2 (d_step_locals toy toy_trainer [0] [0])) = 0
   \<and> snd (d_step toy toy_trainer [0] [0]) = Inl ZeroDivisionError
   \<and> metrics_of (snd (d_step toy toy_trainer [0] [0])) ''ipm_ratio'' = None"
  by (simp add: d_step_snd [OF alpha_inv_toy] toy_zero_locals Let_def metrics_of_def)

text \<open>
  Claim C6, amended. \<^verbatim>\<open>ipm_denom = sqrt (0.5 * epf2 + 0.5 * eqf2)\<close> is never negative.
  On a discriminator step (the critic scoring non-empty batches) where it is strictly
  positive the step returns, and reports
  \<^verbatim>\<open>ipm_enum = epf - eqf\<close>, \<^verbatim>\<open>ipm_denom\<close> and \<^verbatim>\<open>ipm_ratio = ipm_enum / ipm_denom\<close>.
  Where it is zero the unguarded division raises \<^verbatim>\<open>ZeroDivisionError\<close> in place of
  producing a metric.
\<close>

theorem ipm_ratio_or_zero_division:
  assumes "alpha_inv s"
    and "discriminator_call E (zero_grad E (pstate (discriminator s))) real_input \<noteq> []"
    and "discriminator_call E (zero_grad E (pstate (discriminator s)))
           (generator_call E (pstate (generator s)) g_input) \<noteq> []"
  shows "let L = d_step_locals E s g_input real_input;
             ipm_enum = epf L - eqf L;
             ipm_denom = sqrt (0.5 * epf2 L + 0.5 * eqf2 L)
         in 0 \<le> ipm_denom
            \<and> (0 < ipm_denom \<longrightarrow>
                  (\<exists>m. snd (d_step E s g_input real_input) = Inr (prediction L, m)
                        \<and> m ''ipm_enum'' = Some ipm_enum
                        \<and> m ''ipm_denom'' = Some ipm_denom
                        \<and> m ''ipm_ratio'' = Some (ipm_enum / ipm_denom)))
            \<and> (ipm_denom = 0 \<longrightarrow>
                  snd (d_step E s g_input real_input) = Inl ZeroDivisionError)"
proof -
  let ?L = "d_step_locals E s g_input real_input"
  let ?e = "epf ?L - eqf ?L"
  let ?d = "sqrt (0.5 * epf2 ?L + 0.5 * eqf2 ?L)"
  have nonneg: "0 \<le> ?d"
    using second_moment_nonneg [of E s g_input real_input] by simp
  have zero: "snd (d_step E s g_input real_input) = Inl ZeroDivisionError" if "?d = 0"
    using that by (simp add: d_step_snd [OF assms(1)] Let_def)
  have pos: "\<exists>m. snd (d_step E s g_input real_input) = Inr (prediction ?L, m)
                 \<and> m ''ipm_enum'' = Some ?e \<and> m ''ipm_denom'' = Some ?d
                 \<and> m ''ipm_ratio'' = Some (?e / ?d)" if "0 < ?d"
  proof -
    from that have "?d \<noteq> 0" by simp
    then have "snd (d_step E s g_input real_input) =
        Inr (prediction ?L, ret_losses ?e ?d (?e / ?d) ?L (dual_ascent E s g_input real_input))"
      by (simp add: d_step_snd [OF assms(1)] Let_def)
    moreover have "ret_losses ?e ?d (?e / ?d) ?L (dual_ascent E s g_input real_input) ''ipm_enum''
        = Some ?e"
      and "ret_losses ?e ?d (?e / ?d) ?L (dual_ascent E s g_input real_input) ''ipm_denom''
        = Some ?d"
      and "ret_losses ?e ?d (?e / ?d) ?L (dual_ascent E s g_input real_input) ''ipm_ratio''
        = Some (?e / ?d)"
      by (simp_all add: ret_losses_def)
    ultimately show ?thesis by blast
  qed
  show ?thesis
    unfolding Let_def using nonneg zero pos by blast
qed

theorem ipm_ratio_or_zero_division_witness:
  "alpha_inv toy_trainer
   \<and> discriminator_call toy (zero_grad toy (pstate (discriminator toy_trainer))) [2] = [2]
   \<and> discriminator_call toy (zero_grad toy (pstate (discriminator toy_trainer)))
        (generator_call toy (pstate (generator toy_trainer)) [1]) = [1]
   \<and> discriminator_call toy (zero_grad toy (pstate (discriminator toy_trainer))) [0] = [0]
   \<and> discriminator_call toy (zero_grad toy (pstate (discriminator toy_trainer)))
        (generator_call toy (pstate (generator toy_trainer)) [0]) = [0]
   \<and> 0 < sqrt (0.5 * epf2 (d_step_locals toy toy_trainer [1] [2])
               + 0.5 * eqf2 (d_step_locals toy toy_trainer [1] [2]))
   \<and> (\<exists>m. snd (d_step toy toy_trainer [1] [2]) = Inr ([1], m)
           \<and> m ''ipm_enum'' = Some 1
           \<and> m ''ipm_denom'' = Some (sqrt (5 / 2))
           \<and> m ''ipm_ratio'' = Some (1 / sqrt (5 / 2)))
   \<and> sqrt (0.5 * epf2 (d_step_locals toy toy_trainer [0] [0])
           + 0.5 * eqf2 (d_step_locals toy toy_trainer [0] [0])) = 0
   \<and> snd (d_step toy toy_trainer [0] [0]) = Inl ZeroDivisionError"
proof -
  have real1: "discriminator_call toy (zero_grad toy (pstate (discriminator toy_trainer))) [2] = [2]"
    and fake1: "discriminator_call toy (zero_grad toy (pstate (discriminator toy_trainer)))
        (generator_call toy (pstate (generator toy_trainer)) [1]) = [1]"
    and real0: "discriminator_call toy (zero_grad toy (pstate (discriminator toy_trainer))) [0] = [0]"
    and fake0: "discriminator_call toy (zero_grad toy (pstate (discriminator toy_trainer)))
        (generator_call toy (pstate (generator toy_trainer)) [0]) = [0]"
    by (simp_all add: toy_defs)
  have pos: "0 < sqrt (0.5 * epf2 (d_step_locals toy toy_trainer [1] [2])
                      + 0.5 * eqf2 (d_step_locals toy toy_trainer [1] [2]))"
    by (simp add: toy_locals)
  have zero: "sqrt (0.5 * epf2 (d_step_locals toy toy_trainer [0] [0])
                   + 0.5 * eqf2 (d_step_locals toy toy_trainer [0] [0])) = 0"
    by (simp add: toy_zero_locals)
  have "\<exists>m. snd (d_step toy toy_trainer [1] [2]) = Inr ([1], m)
           \<and> m ''ipm_enum'' = Some 1
           \<and> m ''ipm_denom'' = Some (sqrt (5 / 2))
           \<and> m ''ipm_ratio'' = Some (1 / sqrt (5 / 2))"
    using ipm_ratio_or_zero_division [OF alpha_inv_toy, of toy "[2]" "[1]"] pos real1 fake1
    by (simp add: Let_def toy_locals)
  moreover have "snd (d_step toy toy_trainer [0] [0]) = Inl ZeroDivisionError"
    using ipm_ratio_or_zero_division [OF alpha_inv_toy, of toy "[0]" "[0]"] zero real0 fake0
    by (simp add: Let_def)
  ultimately show ?thesis
    using alpha_inv_toy pos zero real1 fake1 real0 fake0 by blast
qed

text \<open>
  Claim C7, as stated, fails: the value reported under \<^verbatim>\<open>'constraint'\<close> is itself
  \<open>0.5 * epf2 + 0.5 * eqf2\<close>, so adding that quantity gives twice it. In the scenario
  with scores 2 and 1 both are 5/2.
\<close>

theorem constraint_sum_counterexample:
  "metrics_of (snd (d_step toy toy_trainer [1] [2])) ''constraint'' = Some (5 / 2)
   \<and> 0.5 * epf2 (d_step_locals toy toy_trainer [1] [2])
       + 0.5 * eqf2 (d_step_locals toy toy_trainer [1] [2]) = 5 / 2
   \<and> the (metrics_of (snd (d_step toy toy_trainer [1] [2])) ''constraint'')
       + (0.5 * epf2 (d_step_locals toy toy_trainer [1] [2])
          + 0.5 * eqf2 (d_step_locals toy toy_trainer [1] [2])) \<noteq> 1"
  by (simp add: toy_first_metrics metrics_of_def ret_losses_def get_scalar_value_def toy_locals)

text \<open>
  Claim C7, amended. On every discriminator step that returns, the value reported under
  \<^verbatim>\<open>'constraint'\<close> is 1 minus the internal residual
  \<open>constraint = 1 - (0.5 * epf2 + 0.5 * eqf2)\<close>: it equals \<open>0.5 * epf2 + 0.5 * eqf2\<close> of
  the reported \<^verbatim>\<open>epf2\<close> and \<^verbatim>\<open>eqf2\<close>, and it is the reported value plus the internal
  residual that sums to 1.
\<close>

theorem constraint_reported:
  assumes "snd (d_step E s g_input real_input) = Inr (pred, m)"
  shows "let L = d_step_locals E s g_input real_input
         in constraint L = 1 - (0.5 * epf2 L + 0.5 * eqf2 L)
            \<and> m ''epf2'' = Some (epf2 L) \<and> m ''eqf2'' = Some (eqf2 L)
            \<and> m ''constraint'' = Some (1 - constraint L)
            \<and> m ''constraint'' = Some (0.5 * epf2 L + 0.5 * eqf2 L)
            \<and> the (m ''constraint'') + constraint L = 1"
proof -
  from d_step_returns_metrics [OF assms]
  obtain e d r v where m: "m = ret_losses e d r (d_step_locals E s g_input real_input) v"
    by blast
  show ?thesis
    unfolding Let_def m
    using constraint_locals [of E s g_input real_input]
    by (simp add: ret_losses_def get_scalar_value_def)
qed

theorem constraint_reported_witness:
  "snd (d_step toy toy_trainer [1] [2]) =
     Inr ([1], ret_losses 1 (sqrt (5 / 2)) (1 / sqrt (5 / 2))
                 (d_step_locals toy toy_trainer [1] [2])
                 (dual_ascent toy toy_trainer [1] [2]))
   \<and> ret_losses 1 (sqrt (5 / 2)) (1 / sqrt (5 / 2))
        (d_step_locals toy toy_trainer [1] [2])
        (dual_ascent toy toy_trainer [1] [2]) ''constraint'' = Some (5 / 2)
   \<and> constraint (d_step_locals toy toy_trainer [1] [2]) = - (3 / 2)"
proof -
  from constraint_reported [OF toy_first_metrics]
  have "ret_losses 1 (sqrt (5 / 2)) (1 / sqrt (5 / 2))
          (d_step_locals toy toy_trainer [1] [2])
          (dual_ascent toy toy_trainer [1] [2]) ''constraint'' = Some (5 / 2)"
    by (simp add: Let_def toy_locals)
  with toy_first_metrics show ?thesis
    by (simp add: toy_locals)
qed

text \<open>
  Claim C10. On a discriminator step that returns, the value reported under
  \<^verbatim>\<open>'lagrange'\<close> is the value of \<open>alpha\<close> after the dual-ascent update of that step, which
  is the value that entered the loss minus \<open>rho * constraint\<close>. With \<open>rho\<close> nonzero (it is
  a positive coefficient) the reported value differs from the entering one exactly when
  the constraint residual is nonzero.
\<close>

theorem lagrange_after_update:
  assumes "alpha_inv s"
    and "snd (d_step E s g_input real_input) = Inr (pred, m)"
  shows "let L = d_step_locals E s g_input real_input;
             entering = data (lazy_alpha (alpha s))
         in (\<exists>v. alpha (fst (d_step E s g_input real_input)) = Some v
                  \<and> m ''lagrange'' = Some (data v))
            \<and> m ''lagrange'' = Some (entering + rho s * (- constraint L))
            \<and> (rho s \<noteq> 0 \<longrightarrow>
                  (m ''lagrange'' \<noteq> Some entering) = (constraint L \<noteq> 0))"
proof -
  let ?L = "d_step_locals E s g_input real_input"
  let ?v = "dual_ascent E s g_input real_input"
  from d_step_returns_metrics [OF assms(2)] d_step_alpha [OF assms(1), of E g_input real_input]
  obtain e d r where m: "m = ret_losses e d r ?L ?v"
    by auto
  have after: "alpha (fst (d_step E s g_input real_input)) = Some ?v"
    using assms(1) by (rule d_step_alpha)
  have reported: "m ''lagrange'' = Some (data ?v)"
    unfolding m by (simp add: ret_losses_def get_scalar_value_def)
  have val: "data ?v = data (lazy_alpha (alpha s)) + rho s * (- constraint ?L)"
    by (simp add: dual_ascent_def)
  show ?thesis
    unfolding Let_def using after reported val by auto
qed

theorem lagrange_after_update_witness:
  "alpha_inv toy_trainer
   \<and> snd (d_step toy toy_trainer [1] [2]) =
       Inr ([1], ret_losses 1 (sqrt (5 / 2)) (1 / sqrt (5 / 2))
                   (d_step_locals toy toy_trainer [1] [2])
                   (dual_ascent toy toy_trainer [1] [2]))
   \<and> ret_losses 1 (sqrt (5 / 2)) (1 / sqrt (5 / 2))
        (d_step_locals toy toy_trainer [1] [2])
        (dual_ascent toy toy_trainer [1] [2]) ''lagrange'' = Some (3 / 2)
   \<and> data (lazy_alpha (alpha toy_trainer)) = 0
   \<and> rho toy_trainer = 1
   \<and> constraint (d_step_locals toy toy_trainer [1] [2]) = - (3 / 2)"
proof -
  have entering: "data (lazy_alpha (alpha toy_trainer)) = 0" and rho: "rho toy_trainer = 1"
    by (simp_all add: toy_defs lazy_alpha_def)
  from lagrange_after_update [OF alpha_inv_toy toy_first_metrics]
  have "ret_losses 1 (sqrt (5 / 2)) (1 / sqrt (5 / 2))
          (d_step_locals toy toy_trainer [1] [2])
          (dual_ascent toy toy_trainer [1] [2]) ''lagrange'' = Some (3 / 2)"
    by (simp add: Let_def toy_locals entering rho)
  with alpha_inv_toy toy_first_metrics entering rho show ?thesis
    by (simp add: toy_locals)
qed

subsection \<open>The counter and the frame of a step\<close>


















subsection \<open>Trainability flags\<close>

lemma d_step_discriminator:
  "discriminator (fst (d_step E s gi ri)) =
     \<lparr>pstate = snd (optimizer_step E (d_optimizer s)
                 (backward E (map (\<lambda>p. True) (requires_grad (discriminator s)))
                    (\<lambda>p. d_loss (d_forward E s p (data (lazy_alpha (alpha s))) gi ri))
                    (zero_grad E (pstate (discriminator s))))),
      requires_grad = map (\<lambda>p. True) (requires_grad (discriminator s))\<rparr>"
  unfolding d_step_def
  by (simp add: Let_def split: prod.splits option.splits)

lemma d_step_generator: "generator (fst (d_step E s gi ri)) = generator s"
  unfolding d_step_def
  by (simp add: Let_def split: prod.splits option.splits)

lemma g_step_discriminator:
  "discriminator (fst (g_step E s gi)) =
     (discriminator s)\<lparr>requires_grad := map (\<lambda>p. False) (requires_grad (discriminator s))\<rparr>"
  unfolding g_step_def by (simp add: Let_def split: prod.splits)

lemma g_step_generator_flags:
  "requires_grad (generator (fst (g_step E s gi))) = requires_grad (generator s)"
  unfolding g_step_def by (simp add: Let_def split: prod.splits)

lemma g_step_generator_eval:
  "\<not> training s \<Longrightarrow> generator (fst (g_step E s gi)) = generator s"
  unfolding g_step_def by (simp add: Let_def)

lemma g_step_generator_training:
  "training s \<Longrightarrow>
   pstate (generator (fst (g_step E s gi))) =
     snd (optimizer_step E (g_optimizer s)
            (backward E (requires_grad (generator s))
               (\<lambda>p. - mean (discriminator_call E (pstate (discriminator s))
                               (generator_call E p gi)))
               (zero_grad E (pstate (generator s)))))"
  unfolding g_step_def by (simp add: Let_def split: prod.splits)

text \<open>
  Claim C9, as stated, fails in its last part: a generator step does not make the
  generator's parameters trainable. It writes the flags of the discriminator only; a
  generator parameter that did not require gradients before the step (here the frozen
  bias) does not require them after it, and in evaluation mode the step does not train
  the generator at all (its optimizer is not stepped).
\<close>

theorem generator_flags_counterexample:
  "training toy_trainer
   \<and> requires_grad (generator toy_trainer) = [True, False]
   \<and> requires_grad (generator (fst (g_step toy toy_trainer [1]))) = [True, False]
   \<and> requires_grad (discriminator (fst (g_step toy toy_trainer [1]))) = [False, False]
   \<and> requires_grad (generator (fst (g_step toy (toy_trainer\<lparr>training := False\<rparr>) [1])))
       = [True, False]
   \<and> g_optimizer (fst (g_step toy (toy_trainer\<lparr>training := False\<rparr>) [1]))
       = g_optimizer toy_trainer"
  by (simp add: g_step_generator_flags g_step_discriminator)
     (simp add: toy_defs g_step_def Let_def)

text \<open>
  Claim C9, amended. At the start of every discriminator step every
  \<^verbatim>\<open>requires_grad\<close> flag of the discriminator is set to true (the backward pass of the
  step runs with all of them set), and the generator is excluded from gradient tracking:
  the step leaves the generator as it found it. At the start of every generator step
  every \<^verbatim>\<open>requires_grad\<close> flag of the discriminator is set to false, and the step
  does not touch the discriminator's parameters. No step writes a
  \<^verbatim>\<open>requires_grad\<close> flag of the generator: in training mode the generator step
  back-propagates into the generator's parameters whose flag is already set, in
  evaluation mode it leaves the generator as it found it.
\<close>

theorem trainability_toggling:
  "discriminator (fst (d_step E s g_input real_input)) =
     \<lparr>pstate = snd (optimizer_step E (d_optimizer s)
                 (backward E (map (\<lambda>p. True) (requires_grad (discriminator s)))
                    (\<lambda>p. d_loss (d_forward E s p (data (lazy_alpha (alpha s)))
                                   g_input real_input))
                    (zero_grad E (pstate (discriminator s))))),
      requires_grad = map (\<lambda>p. True) (requires_grad (discriminator s))\<rparr>
   \<and> generator (fst (d_step E s g_input real_input)) = generator s
   \<and> discriminator (fst (g_step E s g_input)) =
       (discriminator s)\<lparr>requires_grad := map (\<lambda>p. False) (requires_grad (discriminator s))\<rparr>
   \<and> requires_grad (generator (fst (g_step E s g_input))) = requires_grad (generator s)
   \<and> (if training s
       then pstate (generator (fst (g_step E s g_input))) =
              snd (optimizer_step E (g_optimizer s)
                     (backward E (requires_grad (generator s))
                        (\<lambda>p. - mean (discriminator_call E (pstate (discriminator s))
                                        (generator_call E p g_input)))
                        (zero_grad E (pstate (generator s)))))
       else generator (fst (g_step E s g_input)) = generator s)"
  using d_step_discriminator [of E s g_input real_input]
    d_step_generator [of E s g_input real_input]
    g_step_discriminator [of E s g_input] g_step_generator_flags [of E s g_input]
    g_step_generator_eval [of s E g_input] g_step_generator_training [of s E g_input]
  by (cases "training s") simp_all

theorem trainability_toggling_witness:
  "requires_grad (discriminator toy_trainer) = [False, True]
   \<and> requires_grad (discriminator (fst (d_step toy toy_trainer [1] [2]))) = [True, True]
   \<and> generator (fst (d_step toy toy_trainer [1] [2])) = generator toy_trainer
   \<and> requires_grad (discriminator (fst (g_step toy toy_trainer [1]))) = [False, False]
   \<and> requires_grad (generator (fst (g_step toy toy_trainer [1]))) = [True, False]
   \<and> generator (fst (g_step toy (toy_trainer\<lparr>training := False\<rparr>) [1])) = generator toy_trainer"
proof -
  have flags: "requires_grad (discriminator toy_trainer) = [False, True]"
    "requires_grad (generator toy_trainer) = [True, False]"
    by (simp_all add: toy_defs)
  note train = trainability_toggling [of toy toy_trainer "[1]" "[2]"]
  note eval = trainability_toggling [of toy "toy_trainer\<lparr>training := False\<rparr>" "[1]" "[2]"]
  from train have "requires_grad (discriminator (fst (d_step toy toy_trainer [1] [2]))) =
      map (\<lambda>p. True) (requires_grad (discriminator toy_trainer))"
    by simp
  moreover from train have "generator (fst (d_step toy toy_trainer [1] [2])) = generator toy_trainer"
    by simp
  moreover from train have "requires_grad (discriminator (fst (g_step toy toy_trainer [1]))) =
      map (\<lambda>p. False) (requires_grad (discriminator toy_trainer))"
    by simp
  moreover from train have "requires_grad (generator (fst (g_step toy toy_trainer [1]))) =
      requires_grad (generator toy_trainer)"
    by simp
  moreover from eval have "generator (fst (g_step toy (toy_trainer\<lparr>training := False\<rparr>) [1])) =
      generator toy_trainer"
    by simp
  ultimately show ?thesis
    by (simp add: flags)
qed

end
